theory Spec2Isabelle
  imports Main "HOL-Library.Word"
begin

unbundle bit_operations_syntax

text \<open>
  A shallow embedding of \<^verbatim>\<open>server/public/shared/httpservice/httpservice.go\<close>: the
  function \<^verbatim>\<open>MakeTransport\<close> with its closures \<^verbatim>\<open>allowHost\<close> and \<^verbatim>\<open>allowIP\<close>, and
  \<^verbatim>\<open>splitFields\<close>. The closures read the configuration each time they run, so the
  configuration is an explicit argument of every evaluation.
\<close>

section \<open>Strings, runes and the field splitter\<close>

text \<open>
  A Go \<^verbatim>\<open>string\<close> is a sequence of bytes and is modelled as a \<^typ>\<open>string\<close>
  (a list of 8-bit characters). A \<^verbatim>\<open>rune\<close> is an \<^verbatim>\<open>int32\<close> code point; ranging
  over a string only yields values between 0 and \<^verbatim>\<open>0x10FFFF\<close>.
\<close>

type_synonym rune = int

definition RuneError :: rune where
  "RuneError = 0xFFFD"

definition byte_of :: "char \<Rightarrow> int" where
  "byte_of c = of_char c"

text \<open>
  \<^verbatim>\<open>unicode.IsSpace\<close> (Go standard library): in Latin-1 the space characters are
  \<^verbatim>\<open>'\t', '\n', '\v', '\f', '\r', ' ', U+0085, U+00A0\<close>; beyond Latin-1 they are the
  code points with the Unicode property White_Space.
\<close>

definition IsSpace :: "rune \<Rightarrow> bool" where
  "IsSpace r =
     (if 0 \<le> r \<and> r \<le> 0xFF
      then r = 0x09 \<or> r = 0x0A \<or> r = 0x0B \<or> r = 0x0C \<or> r = 0x0D \<or> r = 0x20
           \<or> r = 0x85 \<or> r = 0xA0
      else r = 0x1680 \<or> (0x2000 \<le> r \<and> r \<le> 0x200A) \<or> r = 0x2028 \<or> r = 0x2029
           \<or> r = 0x202F \<or> r = 0x205F \<or> r = 0x3000)"

text \<open>\<^verbatim>\<open>func splitFields(c rune) bool { return unicode.IsSpace(c) || c == ',' }\<close>\<close>

definition splitFields :: "rune \<Rightarrow> bool" where
  "splitFields c = (IsSpace c \<or> c = 0x2C)"

text \<open>
  UTF-8 decoding as \<^verbatim>\<open>utf8.DecodeRuneInString\<close> does it: the first byte gives the
  length of the encoding and the range accepted for the second byte; an invalid or
  truncated encoding decodes to \<^verbatim>\<open>RuneError\<close> of width 1.
\<close>

definition first_size :: "int \<Rightarrow> nat" where
  "first_size s0 =
     (if 0xC2 \<le> s0 \<and> s0 \<le> 0xDF then 2
      else if 0xE0 \<le> s0 \<and> s0 \<le> 0xEF then 3
      else if 0xF0 \<le> s0 \<and> s0 \<le> 0xF4 then 4
      else 0)"

definition accept_lo :: "int \<Rightarrow> int" where
  "accept_lo s0 = (if s0 = 0xE0 then 0xA0 else if s0 = 0xF0 then 0x90 else 0x80)"

definition accept_hi :: "int \<Rightarrow> int" where
  "accept_hi s0 = (if s0 = 0xED then 0x9F else if s0 = 0xF4 then 0x8F else 0xBF)"

definition DecodeRuneInString :: "string \<Rightarrow> rune \<times> nat" where
  "DecodeRuneInString s =
     (if length s < 1 then (RuneError, 0)
      else
        let s0 = byte_of (s ! 0); sz = first_size s0 in
        if s0 < 0x80 then (s0, 1)
        else if sz = 0 then (RuneError, 1)
        else if length s < sz then (RuneError, 1)
        else
          let s1 = byte_of (s ! 1) in
          if s1 < accept_lo s0 \<or> accept_hi s0 < s1 then (RuneError, 1)
          else if sz \<le> 2 then ((s0 mod 0x20) * 0x40 + s1 mod 0x40, 2)
          else
            let s2 = byte_of (s ! 2) in
            if s2 < 0x80 \<or> 0xBF < s2 then (RuneError, 1)
            else if sz \<le> 3
            then ((s0 mod 0x10) * 0x1000 + (s1 mod 0x40) * 0x40 + s2 mod 0x40, 3)
            else
              let s3 = byte_of (s ! 3) in
              if s3 < 0x80 \<or> 0xBF < s3 then (RuneError, 1)
              else ((s0 mod 0x08) * 0x40000 + (s1 mod 0x40) * 0x1000
                    + (s2 mod 0x40) * 0x40 + s3 mod 0x40, 4))"

text \<open>
  \<^verbatim>\<open>for end, rune := range s\<close>: the runes of \<open>s\<close> in order. Each rune is paired with the
  bytes it was decoded from, so that a slice \<^verbatim>\<open>s[start:end]\<close> between two positions of
  the loop is the concatenation of the bytes in between. The first argument counts the
  bytes still to skip, which belong to the rune decoded last.
\<close>

fun rangeString :: "nat \<Rightarrow> string \<Rightarrow> (rune \<times> string) list" where
  "rangeString skip [] = []"
| "rangeString (Suc skip) (c # cs) = rangeString skip cs"
| "rangeString 0 (c # cs) =
     (let (r, size) = DecodeRuneInString (c # cs)
      in (r, take size (c # cs)) # rangeString (size - 1) cs)"

text \<open>
  \<^verbatim>\<open>strings.FieldsFunc(s, f)\<close> (Go standard library) splits \<open>s\<close> at each run of code
  points satisfying \<open>f\<close> and returns the slices of \<open>s\<close> in between. The loop keeps the
  field that is open (\<^verbatim>\<open>start >= 0\<close>) or \<open>None\<close> (\<^verbatim>\<open>start < 0\<close>); the field still open
  at the end of the string is the last one.
\<close>

fun fieldsLoop :: "(rune \<Rightarrow> bool) \<Rightarrow> (rune \<times> string) list \<Rightarrow> string option \<Rightarrow> string list" where
  "fieldsLoop f [] start = (case start of None \<Rightarrow> [] | Some w \<Rightarrow> [w])"
| "fieldsLoop f ((r, bs) # rest) start =
     (if f r
      then (case start of
              None \<Rightarrow> fieldsLoop f rest None
            | Some w \<Rightarrow> w # fieldsLoop f rest None)
      else (case start of
              None \<Rightarrow> fieldsLoop f rest (Some bs)
            | Some w \<Rightarrow> fieldsLoop f rest (Some (w @ bs))))"

definition FieldsFunc :: "string \<Rightarrow> (rune \<Rightarrow> bool) \<Rightarrow> string list" where
  "FieldsFunc s f = fieldsLoop f (rangeString 0 s) None"

text \<open>\<^verbatim>\<open>slices.Contains(s, v)\<close>: some element of the slice equals \<open>v\<close>.\<close>

fun slices_Contains :: "string list \<Rightarrow> string \<Rightarrow> bool" where
  "slices_Contains [] v = False"
| "slices_Contains (x # xs) v = (if x = v then True else slices_Contains xs v)"

section \<open>Configuration, addresses and errors\<close>

text \<open>
  The two settings of \<^verbatim>\<open>model.Config.ServiceSettings\<close> that \<^verbatim>\<open>MakeTransport\<close> reads. Both
  are pointers in Go (\<^verbatim>\<open>*string\<close>, \<^verbatim>\<open>*bool\<close>); \<open>None\<close> is the nil pointer. The value of
  type \<open>Config\<close> is what \<^verbatim>\<open>h.configService.Config()\<close> returns at the moment it is called.
\<close>

record ServiceSettings =
  AllowedUntrustedInternalConnections :: "string option"
  EnableInsecureOutgoingConnections :: "bool option"

record Config =
  ServiceSettings :: ServiceSettings

text \<open>\<^verbatim>\<open>net.IP\<close> is a byte slice (4 bytes for IPv4, 16 for IPv6); \<^verbatim>\<open>net.IPNet\<close> is a
  network number with its mask.\<close>

type_synonym IP = "8 word list"

record IPNet =
  IP :: IP
  Mask :: "8 word list"

text \<open>
  The errors of \<^verbatim>\<open>allowIP\<close>, one constructor for each \<^verbatim>\<open>fmt.Errorf\<close> of the source with
  its arguments, and one for the error that the enumeration of the interfaces returns.
  \<^item> \<open>EnumerationError\<close>: an error of \<^verbatim>\<open>net.Interfaces\<close> or \<^verbatim>\<open>Addrs\<close>, with its message;
  \<^item> \<open>UnableToDetermineOwnIP err\<close>: \<^verbatim>\<open>"unable to determine if IP is own IP: %w"\<close>;
  \<^item> \<open>ReservedNotAllowed ip\<close>:
    \<^verbatim>\<open>"IP %s is in a reserved range and not in AllowedUntrustedInternalConnections"\<close>;
  \<^item> \<open>SelfAssignedNotAllowed ip\<close>:
    \<^verbatim>\<open>"IP %s is a self-assigned IP and not in AllowedUntrustedInternalConnections"\<close>.
  A result of type \<open>error option\<close> is Go's \<^verbatim>\<open>error\<close>: \<open>None\<close> is \<^verbatim>\<open>nil\<close>.
\<close>

datatype error =
    EnumerationError string
  | UnableToDetermineOwnIP error
  | ReservedNotAllowed IP
  | SelfAssignedNotAllowed IP

text \<open>
  The functions that \<^verbatim>\<open>allowIP\<close> calls and that are defined outside
  \<^verbatim>\<open>httpservice.go\<close>, taken as parameters: \<^verbatim>\<open>IsReservedIP\<close> and \<^verbatim>\<open>IsOwnIP\<close> of the same
  package (\<^verbatim>\<open>IsOwnIP\<close> enumerates the interfaces of the machine and returns
  \<^verbatim>\<open>(bool, error)\<close>: \<open>Inl\<close> is the error), and \<^verbatim>\<open>net.ParseCIDR\<close> and
  \<^verbatim>\<open>(*net.IPNet).Contains\<close> of the standard library (\<open>None\<close> is a parse error; the
  closure only uses the network of a successful parse).
\<close>

record env =
  IsReservedIP :: "IP \<Rightarrow> bool"
  IsOwnIP :: "IP \<Rightarrow> error + bool"
  ParseCIDR :: "string \<Rightarrow> IPNet option"
  Contains :: "IPNet \<Rightarrow> IP \<Rightarrow> bool"

section \<open>The CIDR parser and the containment test of Go's \<^verbatim>\<open>net\<close> package\<close>

text \<open>
  A model of \<^verbatim>\<open>net.ParseCIDR\<close> and \<^verbatim>\<open>(*net.IPNet).Contains\<close> of the Go standard
  library (Go 1.24, the version of \<^verbatim>\<open>go.mod\<close>), used to instantiate the parameters
  \<open>ParseCIDR\<close> and \<open>Contains\<close> of an environment in the examples. The general
  theorems below hold for every environment and do not depend on this model.
\<close>

subsection \<open>Decimal numbers: \<^verbatim>\<open>dtoi\<close>\<close>

text \<open>\<^verbatim>\<open>dtoi\<close> reads the decimal digits at the start of a string and returns the number, the
  count of characters read and whether it succeeded (no digit, or a number of
  \<^verbatim>\<open>0xFFFFFF\<close> or more, fails).\<close>

definition is_digit :: "char \<Rightarrow> bool" where
  "is_digit c = (0x30 \<le> byte_of c \<and> byte_of c \<le> 0x39)"

definition big :: int where
  "big = 0xFFFFFF"

fun dtoiLoop :: "string \<Rightarrow> int \<Rightarrow> nat \<Rightarrow> int \<times> nat \<times> bool" where
  "dtoiLoop [] n i = (n, i, True)"
| "dtoiLoop (c # cs) n i =
     (if is_digit c
      then (let n' = n * 10 + (byte_of c - 0x30)
            in if n' \<ge> big then (big, i, False) else dtoiLoop cs n' (Suc i))
      else (n, i, True))"

definition dtoi :: "string \<Rightarrow> int \<times> nat \<times> bool" where
  "dtoi s =
     (case dtoiLoop s 0 0 of
        (n, i, ok) \<Rightarrow>
          if \<not> ok then (n, i, False)
          else if i = 0 then (0, 0, False)
          else (n, i, True))"

subsection \<open>Addresses: \<^verbatim>\<open>netip.ParseAddr\<close>\<close>

text \<open>
  \<^verbatim>\<open>parseIPv4Fields\<close>: four decimal octets separated by dots. The loop carries the
  character before the current one (\<open>None\<close> at index 0), the value and the number of
  digits of the current octet, and the octets already stored (their count is \<open>pos\<close>).
  An octet with a leading zero, a value above 255, an empty octet, a fifth octet or any
  other character is an error.
\<close>

fun parseIPv4Loop :: "string \<Rightarrow> char option \<Rightarrow> int \<Rightarrow> nat \<Rightarrow> 8 word list \<Rightarrow> 8 word list option" where
  "parseIPv4Loop [] prev val digLen octets =
     (if length octets < 3 then None else Some (octets @ [word_of_int val]))"
| "parseIPv4Loop (c # cs) prev val digLen octets =
     (if is_digit c then
        (if digLen = 1 \<and> val = 0 then None
         else (let val' = val * 10 + (byte_of c - 0x30)
               in if val' > 255 then None
                  else parseIPv4Loop cs (Some c) val' (Suc digLen) octets))
      else if c = CHR ''.'' then
        (if prev = None \<or> cs = [] \<or> prev = Some CHR ''.'' then None
         else if length octets = 3 then None
         else parseIPv4Loop cs (Some c) 0 0 (octets @ [word_of_int val]))
      else None)"

definition parseIPv4Fields :: "string \<Rightarrow> 8 word list option" where
  "parseIPv4Fields s = parseIPv4Loop s None 0 0 []"

text \<open>One group of an IPv6 address: up to four hexadecimal digits. \<open>hexGroup\<close> returns the
  value and the number of digits read, or \<open>None\<close> at a fifth digit.\<close>

definition hex_digit :: "char \<Rightarrow> int option" where
  "hex_digit c =
     (let b = byte_of c in
      if 0x30 \<le> b \<and> b \<le> 0x39 then Some (b - 0x30)
      else if 0x61 \<le> b \<and> b \<le> 0x66 then Some (b - 0x61 + 10)
      else if 0x41 \<le> b \<and> b \<le> 0x46 then Some (b - 0x41 + 10)
      else None)"

fun hexGroup :: "string \<Rightarrow> nat \<Rightarrow> int \<Rightarrow> (int \<times> nat) option" where
  "hexGroup [] off acc = Some (acc, off)"
| "hexGroup (c # cs) off acc =
     (case hex_digit c of
        None \<Rightarrow> Some (acc, off)
      | Some d \<Rightarrow>
          (let acc' = acc * 16 + d
           in if off > 3 then None
              else if acc' > 0xFFFF then None
              else hexGroup cs (Suc off) acc'))"

text \<open>
  The main loop of \<^verbatim>\<open>parseIPv6\<close> (\<^verbatim>\<open>for i < 16\<close>): \<open>ip\<close> holds the \<open>i\<close> bytes parsed so
  far, \<open>ellipsis\<close> the position of \<^verbatim>\<open>::\<close> if one was seen. The result is the state at the
  exit of the loop, or \<open>None\<close> where the loop returns an error.
\<close>

function parseIPv6Loop :: "string \<Rightarrow> 8 word list \<Rightarrow> nat option \<Rightarrow> (string \<times> 8 word list \<times> nat option) option" where
  "parseIPv6Loop s ip ellipsis =
     (if \<not> length ip < 16 then Some (s, ip, ellipsis)
      else
        case hexGroup s 0 0 of
          None \<Rightarrow> None
        | Some (acc, off) \<Rightarrow>
            if off = 0 then None
            else if off < length s \<and> s ! off = CHR ''.'' then
              (if ellipsis = None \<and> length ip \<noteq> 12 then None
               else if length ip + 4 > 16 then None
               else (case parseIPv4Fields s of
                       None \<Rightarrow> None
                     | Some octets \<Rightarrow> Some ([], ip @ octets, ellipsis)))
            else
              (let ip' = ip @ [word_of_int (acc div 0x100), word_of_int acc];
                   s1 = drop off s
               in if s1 = [] then Some (s1, ip', ellipsis)
                  else if hd s1 \<noteq> CHR '':'' then None
                  else if length s1 = 1 then None
                  else
                    (let s2 = tl s1
                     in if hd s2 = CHR '':'' then
                          (if ellipsis \<noteq> None then None
                           else if tl s2 = [] then Some ([], ip', Some (length ip'))
                           else parseIPv6Loop (tl s2) ip' (Some (length ip')))
                        else parseIPv6Loop s2 ip' ellipsis)))"
  by pat_completeness auto
termination
  by (relation "measure (\<lambda>(s, ip, ellipsis). 16 - length ip)") auto

text \<open>\<^verbatim>\<open>parseIPv6\<close>: the zone after \<^verbatim>\<open>%\<close> is split off first, a leading \<^verbatim>\<open>::\<close> is read, the
  loop runs, and the ellipsis is expanded to the missing zero bytes.\<close>

definition parseIPv6 :: "string \<Rightarrow> (8 word list \<times> string) option" where
  "parseIPv6 inp =
     (let hasZone = (CHR ''%'' \<in> set inp);
          s = takeWhile (\<lambda>c. c \<noteq> CHR ''%'') inp;
          zone = (if hasZone then tl (dropWhile (\<lambda>c. c \<noteq> CHR ''%'') inp) else [])
      in if hasZone \<and> zone = [] then None
         else
           (let leading = (length s \<ge> 2 \<and> s ! 0 = CHR '':'' \<and> s ! 1 = CHR '':'');
                ellipsis = (if leading then Some 0 else None);
                s' = (if leading then drop 2 s else s)
            in if leading \<and> s' = [] then Some (replicate 16 0, zone)
               else
                 (case parseIPv6Loop s' [] ellipsis of
                    None \<Rightarrow> None
                  | Some (rest, ip, ell) \<Rightarrow>
                      if rest \<noteq> [] then None
                      else if length ip < 16 then
                        (case ell of
                           None \<Rightarrow> None
                         | Some e \<Rightarrow>
                             Some (take e ip @ replicate (16 - length ip) 0 @ drop e ip, zone))
                      else if ell \<noteq> None then None
                      else Some (ip, zone))))"

text \<open>A \<^verbatim>\<open>netip.Addr\<close> is an IPv4 address of 4 bytes, or an IPv6 address of 16 bytes with
  its zone. \<^verbatim>\<open>ParseAddr\<close> looks for the first dot, colon or percent sign to choose the
  parser.\<close>

datatype Addr = Addr4 "8 word list" | Addr6 "8 word list" string

fun ParseAddrScan :: "string \<Rightarrow> string \<Rightarrow> Addr option" where
  "ParseAddrScan s [] = None"
| "ParseAddrScan s (c # cs) =
     (if c = CHR ''.'' then map_option Addr4 (parseIPv4Fields s)
      else if c = CHR '':'' then map_option (\<lambda>(ip, zone). Addr6 ip zone) (parseIPv6 s)
      else if c = CHR ''%'' then None
      else ParseAddrScan s cs)"

definition ParseAddr :: "string \<Rightarrow> Addr option" where
  "ParseAddr s = ParseAddrScan s s"

fun Zone :: "Addr \<Rightarrow> string" where
  "Zone (Addr4 ip) = []"
| "Zone (Addr6 ip zone) = zone"

fun BitLen :: "Addr \<Rightarrow> nat" where
  "BitLen (Addr4 ip) = 32"
| "BitLen (Addr6 ip zone) = 128"

definition v4InV6Prefix :: "8 word list" where
  "v4InV6Prefix = [0, 0, 0, 0, 0, 0, 0, 0, 0, 0, 0xff, 0xff]"

fun As16 :: "Addr \<Rightarrow> 8 word list" where
  "As16 (Addr4 ip) = v4InV6Prefix @ ip"
| "As16 (Addr6 ip zone) = ip"

subsection \<open>\<^verbatim>\<open>CIDRMask\<close>, \<^verbatim>\<open>IP.Mask\<close> and \<^verbatim>\<open>ParseCIDR\<close>\<close>

text \<open>A nil slice is modelled as the empty list.\<close>

fun CIDRMaskLoop :: "nat \<Rightarrow> nat \<Rightarrow> 8 word list" where
  "CIDRMaskLoop 0 n = []"
| "CIDRMaskLoop (Suc l) n =
     (if n \<ge> 8 then 0xff # CIDRMaskLoop l (n - 8)
      else NOT (drop_bit n (0xff :: 8 word)) # CIDRMaskLoop l 0)"

definition CIDRMask :: "nat \<Rightarrow> nat \<Rightarrow> 8 word list" where
  "CIDRMask ones bits =
     (if bits \<noteq> 32 \<and> bits \<noteq> 128 then []
      else if ones > bits then []
      else CIDRMaskLoop (bits div 8) ones)"

definition allFF :: "8 word list \<Rightarrow> bool" where
  "allFF b = list_all (\<lambda>c. c = 0xff) b"

definition IP_Mask :: "IP \<Rightarrow> 8 word list \<Rightarrow> IP" where
  "IP_Mask ip0 mask0 =
     (let mask = (if length mask0 = 16 \<and> length ip0 = 4 \<and> allFF (take 12 mask0)
                  then drop 12 mask0 else mask0);
          ip = (if length mask = 4 \<and> length ip0 = 16 \<and> take 12 ip0 = v4InV6Prefix
                then drop 12 ip0 else ip0)
      in if length ip \<noteq> length mask then []
         else map (\<lambda>(a, b). a AND b) (zip ip mask))"

text \<open>\<^verbatim>\<open>net.ParseCIDR\<close>: the string is cut at the first slash; the address must parse and
  have no zone; the prefix length must be a decimal number between 0 and the bit length
  of the address. The network is the address masked.\<close>

definition net_ParseCIDR :: "string \<Rightarrow> IPNet option" where
  "net_ParseCIDR s =
     (if CHR ''/'' \<notin> set s then None
      else
        (let addr = takeWhile (\<lambda>c. c \<noteq> CHR ''/'') s;
             mask = tl (dropWhile (\<lambda>c. c \<noteq> CHR ''/'') s)
         in case ParseAddr addr of
              None \<Rightarrow> None
            | Some ipAddr \<Rightarrow>
                if Zone ipAddr \<noteq> [] then None
                else
                  (case dtoi mask of
                     (n, i, ok) \<Rightarrow>
                       if \<not> ok \<or> i \<noteq> length mask \<or> n < 0 \<or> n > int (BitLen ipAddr) then None
                       else
                         (let m = CIDRMask (nat n) (BitLen ipAddr);
                              addr16 = As16 ipAddr
                          in Some \<lparr>IP = IP_Mask addr16 m, Mask = m\<rparr>))))"

subsection \<open>\<^verbatim>\<open>(*IPNet).Contains\<close>\<close>

text \<open>\<^verbatim>\<open>To4\<close> returns the 4-byte form of an IPv4 address (also of one written as an
  IPv4-mapped IPv6 address), or nil (\<open>None\<close>).\<close>

definition isZeros :: "8 word list \<Rightarrow> bool" where
  "isZeros p = list_all (\<lambda>c. c = 0) p"

definition To4 :: "IP \<Rightarrow> IP option" where
  "To4 ip =
     (if length ip = 4 then Some ip
      else if length ip = 16 \<and> isZeros (take 10 ip) \<and> ip ! 10 = 0xff \<and> ip ! 11 = 0xff
      then Some (drop 12 ip)
      else None)"

definition networkNumberAndMask :: "IPNet \<Rightarrow> IP \<times> 8 word list" where
  "networkNumberAndMask n =
     (let ip = (case To4 (IP n) of Some x \<Rightarrow> x | None \<Rightarrow> IP n)
      in if To4 (IP n) = None \<and> length (IP n) \<noteq> 16 then ([], [])
         else if length (Mask n) = 4 then
           (if length ip \<noteq> 4 then ([], []) else (ip, Mask n))
         else if length (Mask n) = 16 then
           (if length ip = 4 then (ip, drop 12 (Mask n)) else (ip, Mask n))
         else ([], []))"

text \<open>The loop \<^verbatim>\<open>for i := 0; i < l; i++\<close> of \<^verbatim>\<open>Contains\<close>; its first argument counts the
  iterations left.\<close>

fun containsLoop :: "nat \<Rightarrow> nat \<Rightarrow> IP \<Rightarrow> 8 word list \<Rightarrow> IP \<Rightarrow> bool" where
  "containsLoop 0 i nn m ip = True"
| "containsLoop (Suc k) i nn m ip =
     (if (nn ! i) AND (m ! i) \<noteq> (ip ! i) AND (m ! i) then False
      else containsLoop k (Suc i) nn m ip)"

definition IPNet_Contains :: "IPNet \<Rightarrow> IP \<Rightarrow> bool" where
  "IPNet_Contains n ip0 =
     (let (nn, m) = networkNumberAndMask n;
          ip = (case To4 ip0 of Some x \<Rightarrow> x | None \<Rightarrow> ip0);
          l = length ip
      in if l \<noteq> length nn then False
         else containsLoop l 0 nn m ip)"

subsection \<open>\<^verbatim>\<open>IP.Equal\<close>\<close>

text \<open>\<^verbatim>\<open>ip.Equal(x)\<close>: the same bytes, or one is the 4-byte form and the other the
  IPv4-mapped 16-byte form of the same IPv4 address.\<close>

definition IP_Equal :: "IP \<Rightarrow> IP \<Rightarrow> bool" where
  "IP_Equal ip x =
     (if length ip = length x then ip = x
      else if length ip = 4 \<and> length x = 16 then take 12 x = v4InV6Prefix \<and> ip = drop 12 x
      else if length ip = 16 \<and> length x = 4 then take 12 ip = v4InV6Prefix \<and> drop 12 ip = x
      else False)"

text \<open>Modelled from the spec: \<^verbatim>\<open>model.SafeDereference\<close> is not among the sources; a nil
  setting means that no exception is granted, so the nil pointer to a string
  dereferences to the empty string (the zero value of the type).\<close>

definition SafeDereference :: "string option \<Rightarrow> string" where
  "SafeDereference t = (case t of None \<Rightarrow> [] | Some v \<Rightarrow> v)"

section \<open>MakeTransport and its two closures\<close>

text \<open>
  The closure \<^verbatim>\<open>allowHost\<close> of \<^verbatim>\<open>MakeTransport\<close>. It calls
  \<^verbatim>\<open>h.configService.Config()\<close> when it runs: its first argument is the configuration
  at that moment (the two calls in one run of the closure, for the nil check and for the
  dereference, return the same configuration, and \<^verbatim>\<open>Config()\<close> does not return nil).
\<close>

definition allowHost :: "Config \<Rightarrow> string \<Rightarrow> bool" where
  "allowHost cfg host =
     (case AllowedUntrustedInternalConnections (ServiceSettings cfg) of
        None \<Rightarrow> False
      | Some s \<Rightarrow> slices_Contains (FieldsFunc s splitFields) host)"

text \<open>The \<^verbatim>\<open>for _, allowed := range ...\<close> loop of \<^verbatim>\<open>allowIP\<close>: \<open>True\<close> when the loop
  returns \<^verbatim>\<open>nil\<close> from inside, \<open>False\<close> when it runs to its end.\<close>

fun allowedLoop :: "env \<Rightarrow> IP \<Rightarrow> string list \<Rightarrow> bool" where
  "allowedLoop e ip [] = False"
| "allowedLoop e ip (allowed # rest) =
     (case ParseCIDR e allowed of
        None \<Rightarrow> allowedLoop e ip rest
      | Some ipRange \<Rightarrow> if Contains e ipRange ip then True else allowedLoop e ip rest)"

text \<open>
  The closure \<^verbatim>\<open>allowIP\<close>. It reads the configuration and the interfaces of the machine
  when it runs: \<open>e\<close> and \<open>cfg\<close> are their values at that moment.
\<close>

definition allowIP :: "env \<Rightarrow> Config \<Rightarrow> IP \<Rightarrow> error option" where
  "allowIP e cfg ip =
     (let reservedIP = IsReservedIP e ip in
      case IsOwnIP e ip of
        Inl err \<Rightarrow> Some (UnableToDetermineOwnIP err)
      | Inr ownIP \<Rightarrow>
          if \<not> reservedIP \<and> \<not> ownIP then None
          else if allowedLoop e ip
                    (FieldsFunc
                       (SafeDereference (AllowedUntrustedInternalConnections (ServiceSettings cfg)))
                       splitFields)
          then None
          else if reservedIP then Some (ReservedNotAllowed ip)
          else Some (SelfAssignedNotAllowed ip))"

text \<open>
  \<^verbatim>\<open>NewTransport(insecure, allowHost, allowIP)\<close> is not among the sources: the transport
  is modelled as the constructor applied to its three arguments, \<open>None\<close> being a nil
  function. A closure of the transport takes the configuration (and the environment) of
  the moment at which it is called.
\<close>

datatype MattermostTransport =
  NewTransport
    (arg_insecure: bool)
    (arg_allowHost: "(Config \<Rightarrow> string \<Rightarrow> bool) option")
    (arg_allowIP: "(env \<Rightarrow> Config \<Rightarrow> IP \<Rightarrow> error option) option")

text \<open>\<^verbatim>\<open>MakeTransport(trustURLs)\<close>; \<open>cfg\<close> is the configuration at the time of the call.\<close>

definition MakeTransport :: "Config \<Rightarrow> bool \<Rightarrow> MattermostTransport" where
  "MakeTransport cfg trustURLs =
     (let insecure =
            (case EnableInsecureOutgoingConnections (ServiceSettings cfg) of
               None \<Rightarrow> False
             | Some b \<Rightarrow> b)
      in if trustURLs then NewTransport insecure None None
         else NewTransport insecure (Some allowHost) (Some allowIP))"

text \<open>
  Calling a closure of a transport at a later moment, when the configuration is \<open>live\<close>
  (and the environment \<open>e\<close>). \<open>None\<close> means that the transport has no such closure.
\<close>

definition runAllowHost :: "MattermostTransport \<Rightarrow> Config \<Rightarrow> string \<Rightarrow> bool option" where
  "runAllowHost t live host =
     (case arg_allowHost t of None \<Rightarrow> None | Some f \<Rightarrow> Some (f live host))"

definition runAllowIP :: "MattermostTransport \<Rightarrow> env \<Rightarrow> Config \<Rightarrow> IP \<Rightarrow> error option option" where
  "runAllowIP t e live ip =
     (case arg_allowIP t of None \<Rightarrow> None | Some g \<Rightarrow> Some (g e live ip))"

text \<open>
  Modelled from the spec: the dial function that \<^verbatim>\<open>NewTransport\<close> builds from the two
  closures is not among the sources. The spec's Egress Guard (section 4.4) checks the
  host first, and a host match allows the connection whatever the address; otherwise the
  address is checked. A transport without closures (trusted mode, section 4.5) performs
  no check. The result is \<open>None\<close> when the connection is allowed and the reason of the
  denial otherwise.
\<close>

definition evaluate :: "MattermostTransport \<Rightarrow> env \<Rightarrow> Config \<Rightarrow> string \<Rightarrow> IP \<Rightarrow> error option" where
  "evaluate t e live host ip =
     (if runAllowHost t live host = Some True then None
      else case runAllowIP t e live ip of
             None \<Rightarrow> None
           | Some decision \<Rightarrow> decision)"

section \<open>The splitting rule in the words of the spec\<close>

text \<open>
  Section 4.3 of the spec: fields are separated by any whitespace character or comma, and
  an empty string yields no field. \<open>cutAt\<close> cuts a list at every element that is a
  separator (the separators are dropped); \<open>spec_fields\<close> cuts the runes of the string at
  every whitespace character or comma and keeps the pieces that are not empty, each piece
  as the bytes of its runes.
\<close>

fun cutAt :: "('a \<Rightarrow> bool) \<Rightarrow> 'a list \<Rightarrow> 'a list list" where
  "cutAt sep [] = [[]]"
| "cutAt sep (x # xs) =
     (if sep x then [] # cutAt sep xs
      else (case cutAt sep xs of
              [] \<Rightarrow> [[x]]
            | piece # pieces \<Rightarrow> (x # piece) # pieces))"

definition bytesOf :: "(rune \<times> string) list \<Rightarrow> string" where
  "bytesOf piece = concat (map snd piece)"

definition spec_fields :: "string \<Rightarrow> string list" where
  "spec_fields s =
     map bytesOf
       (filter (\<lambda>piece. piece \<noteq> [])
          (cutAt (\<lambda>(r, bs). IsSpace r \<or> r = 0x2C) (rangeString 0 s)))"

text \<open>
  Section 4.3 of the spec goes on: each field is first tried as a CIDR, and the entries
  that fail CIDR parsing are the literal hostnames. \<open>spec_hosts\<close> is that set of
  hostnames, for a given CIDR parser.
\<close>

definition spec_hosts :: "(string \<Rightarrow> IPNet option) \<Rightarrow> string \<Rightarrow> string list" where
  "spec_hosts parse s = filter (\<lambda>field. parse field = None) (spec_fields s)"

section \<open>Example configurations and environments\<close>

definition configWith :: "string option \<Rightarrow> bool option \<Rightarrow> Config" where
  "configWith allowed insecure =
     \<lparr>ServiceSettings =
        \<lparr>AllowedUntrustedInternalConnections = allowed,
         EnableInsecureOutgoingConnections = insecure\<rparr>\<rparr>"

text \<open>
  Modelled from the spec: \<^verbatim>\<open>IsReservedIP\<close> and \<^verbatim>\<open>IsOwnIP\<close> are not among the sources.
  For the examples, an address is reserved when one of the ranges of section 4.1 of the
  spec contains it (loopback, link-local, private space, unspecified, multicast,
  documentation and benchmarking ranges), and it is an own address when it equals
  (\<^verbatim>\<open>IP.Equal\<close>) one of the addresses of the interfaces; the enumeration of the interfaces
  either fails with an error or gives the list of their addresses.
\<close>

definition reservedIPRanges :: "string list" where
  "reservedIPRanges =
     [''127.0.0.0/8'', ''::1/128'',
      ''169.254.0.0/16'', ''fe80::/10'',
      ''10.0.0.0/8'', ''172.16.0.0/12'', ''192.168.0.0/16'', ''fc00::/7'',
      ''0.0.0.0/32'', ''::/128'',
      ''224.0.0.0/4'', ''ff00::/8'',
      ''192.0.2.0/24'', ''198.51.100.0/24'', ''203.0.113.0/24'', ''2001:db8::/32'',
      ''198.18.0.0/15'']"

fun inRanges :: "string list \<Rightarrow> IP \<Rightarrow> bool" where
  "inRanges [] ip = False"
| "inRanges (cidr # rest) ip =
     (case net_ParseCIDR cidr of
        None \<Rightarrow> inRanges rest ip
      | Some ipRange \<Rightarrow> if IPNet_Contains ipRange ip then True else inRanges rest ip)"

fun isOneOf :: "IP \<Rightarrow> IP list \<Rightarrow> bool" where
  "isOneOf ip [] = False"
| "isOneOf ip (selfIP # rest) = (if IP_Equal ip selfIP then True else isOneOf ip rest)"

definition hostEnv :: "error + IP list \<Rightarrow> env" where
  "hostEnv interfaces =
     \<lparr>IsReservedIP = inRanges reservedIPRanges,
      IsOwnIP = (\<lambda>ip. case interfaces of
                         Inl err \<Rightarrow> Inl err
                       | Inr addresses \<Rightarrow> Inr (isOneOf ip addresses)),
      ParseCIDR = net_ParseCIDR,
      Contains = IPNet_Contains\<rparr>"

section \<open>Properties of the loops\<close>

lemma slices_Contains_iff: "slices_Contains xs v \<longleftrightarrow> v \<in> set xs"
  by (induction xs) auto

lemma allowedLoop_iff:
  "allowedLoop e ip fs \<longleftrightarrow>
     (\<exists>allowed \<in> set fs. \<exists>ipRange. ParseCIDR e allowed = Some ipRange \<and> Contains e ipRange ip)"
  by (induction fs) (auto split: option.splits)

lemma allowedLoop_filter:
  "allowedLoop e ip fs = allowedLoop e ip (filter (\<lambda>allowed. ParseCIDR e allowed \<noteq> None) fs)"
  by (induction fs) (auto split: option.splits)

lemma allowedLoop_cong:
  "ParseCIDR e1 = ParseCIDR e2 \<Longrightarrow> Contains e1 = Contains e2 \<Longrightarrow>
     allowedLoop e1 ip fs = allowedLoop e2 ip fs"
  by (induction fs) (auto split: option.splits)

lemma FieldsFunc_empty: "FieldsFunc [] f = []"
  by (simp add: FieldsFunc_def)

lemma allowHost_iff:
  "allowHost cfg host \<longleftrightarrow>
     (\<exists>spec. AllowedUntrustedInternalConnections (ServiceSettings cfg) = Some spec
        \<and> host \<in> set (FieldsFunc spec splitFields))"
  by (simp add: allowHost_def slices_Contains_iff split: option.splits)

lemma allowIP_cases:
  "allowIP e cfg ip =
     (case IsOwnIP e ip of
        Inl err \<Rightarrow> Some (UnableToDetermineOwnIP err)
      | Inr ownIP \<Rightarrow>
          if \<not> IsReservedIP e ip \<and> \<not> ownIP then None
          else if \<exists>allowed \<in> set (FieldsFunc
                       (SafeDereference (AllowedUntrustedInternalConnections (ServiceSettings cfg)))
                       splitFields).
                    \<exists>ipRange. ParseCIDR e allowed = Some ipRange \<and> Contains e ipRange ip
          then None
          else if IsReservedIP e ip then Some (ReservedNotAllowed ip)
          else Some (SelfAssignedNotAllowed ip))"
  by (auto simp: allowIP_def allowedLoop_iff Let_def split: sum.splits)

lemma cutAt_not_Nil: "cutAt sep xs \<noteq> []"
  by (induction xs) (auto split: list.splits)

lemma fieldsLoop_cutAt:
  "fieldsLoop f xs start =
     (case start of
        None \<Rightarrow> map bytesOf (filter (\<lambda>piece. piece \<noteq> []) (cutAt (\<lambda>(r, bs). f r) xs))
      | Some w \<Rightarrow>
          (w @ bytesOf (hd (cutAt (\<lambda>(r, bs). f r) xs)))
            # map bytesOf (filter (\<lambda>piece. piece \<noteq> []) (tl (cutAt (\<lambda>(r, bs). f r) xs))))"
proof (induction xs arbitrary: start)
  case Nil
  show ?case by (simp add: bytesOf_def split: option.splits)
next
  case (Cons x xs)
  obtain r bs where x: "x = (r, bs)" by (cases x)
  obtain piece pieces where cut: "cutAt (\<lambda>(r, bs). f r) xs = piece # pieces"
    using cutAt_not_Nil [of "\<lambda>(r, bs). f r" xs] by (cases "cutAt (\<lambda>(r, bs). f r) xs") auto
  show ?case
    by (simp add: x cut Cons.IH bytesOf_def split: option.splits)
qed

lemma FieldsFunc_spec_fields: "FieldsFunc s splitFields = spec_fields s"
  by (simp add: FieldsFunc_def spec_fields_def fieldsLoop_cutAt splitFields_def)

section \<open>The examples, evaluated\<close>

lemma fields_example:
  "FieldsFunc ''10.0.0.0/8, internal.example.com  other.local'' splitFields
     = [''10.0.0.0/8'', ''internal.example.com'', ''other.local'']"
  by code_simp

lemma fields_loopback: "FieldsFunc ''127.0.0.0/8'' splitFields = [''127.0.0.0/8'']"
  by code_simp

lemma fields_host: "FieldsFunc ''internal.example.com'' splitFields = [''internal.example.com'']"
  by code_simp

lemma parse_ten:
  "net_ParseCIDR ''10.0.0.0/8'' = Some \<lparr>IP = [10, 0, 0, 0], Mask = [255, 0, 0, 0]\<rparr>"
  by code_simp

lemma parse_loopback:
  "net_ParseCIDR ''127.0.0.0/8'' = Some \<lparr>IP = [127, 0, 0, 0], Mask = [255, 0, 0, 0]\<rparr>"
  by code_simp

lemma parse_hosts:
  "net_ParseCIDR ''internal.example.com'' = None" "net_ParseCIDR ''other.local'' = None"
  by code_simp+

lemma contains_loopback:
  "IPNet_Contains \<lparr>IP = [127, 0, 0, 0], Mask = [255, 0, 0, 0]\<rparr> [127, 0, 0, 1]"
  by code_simp

lemma not_contains_ten:
  "\<not> IPNet_Contains \<lparr>IP = [10, 0, 0, 0], Mask = [255, 0, 0, 0]\<rparr> [127, 0, 0, 1]"
  by code_simp

lemma loopback_reserved: "inRanges reservedIPRanges [127, 0, 0, 1]"
  by code_simp

lemma public_not_reserved: "\<not> inRanges reservedIPRanges [93, 184, 216, 34]"
  by code_simp

lemma IP_Equal_same_length: "length ip = length x \<Longrightarrow> IP_Equal ip x \<longleftrightarrow> ip = x"
  by (simp add: IP_Equal_def)

lemma hostEnv_simps:
  "IsReservedIP (hostEnv i) = inRanges reservedIPRanges"
  "IsOwnIP (hostEnv (Inl err)) ip = Inl err"
  "IsOwnIP (hostEnv (Inr addresses)) ip = Inr (isOneOf ip addresses)"
  "ParseCIDR (hostEnv i) = net_ParseCIDR"
  "Contains (hostEnv i) = IPNet_Contains"
  by (simp_all add: hostEnv_def)

lemma configWith_simps:
  "AllowedUntrustedInternalConnections (ServiceSettings (configWith a b)) = a"
  "EnableInsecureOutgoingConnections (ServiceSettings (configWith a b)) = b"
  by (simp_all add: configWith_def)

lemma runAllowHost_MakeTransport:
  "runAllowHost (MakeTransport cfg0 False) live host = Some (allowHost live host)"
  by (simp add: runAllowHost_def MakeTransport_def)

lemma runAllowIP_MakeTransport:
  "runAllowIP (MakeTransport cfg0 False) e live ip = Some (allowIP e live ip)"
  by (simp add: runAllowIP_def MakeTransport_def)

lemma fields_two:
  "FieldsFunc ''192.168.0.0/16 internal.example.com'' splitFields
     = [''192.168.0.0/16'', ''internal.example.com'']"
  by code_simp

lemma parse_private:
  "net_ParseCIDR ''192.168.0.0/16''
     = Some \<lparr>IP = [192, 168, 0, 0], Mask = [255, 255, 0, 0]\<rparr>"
  by code_simp

lemma spec_hosts_subset:
  "set (spec_hosts parse s) \<subseteq> set (FieldsFunc s splitFields)"
  by (auto simp: spec_hosts_def FieldsFunc_spec_fields)

section \<open>The claims\<close>

text \<open>
  C1. When the detection of the own addresses fails (\<^verbatim>\<open>IsOwnIP\<close> returns an error),
  \<^verbatim>\<open>allowIP\<close> returns an error that wraps the error of the enumeration, whatever the
  address, its reserved classification and the allow-list are: it never allows.
\<close>

theorem allowIP_own_error_denies:
  "IsOwnIP e ip = Inl err \<Longrightarrow>
     allowIP e cfg ip = Some (UnableToDetermineOwnIP err) \<and> allowIP e cfg ip \<noteq> None"
  by (simp add: allowIP_def)

theorem allowIP_own_error_denies_witness:
  "IsOwnIP (hostEnv (Inl (EnumerationError ''permission denied''))) [127, 0, 0, 1]
     = Inl (EnumerationError ''permission denied'')
   \<and> allowIP (hostEnv (Inl (EnumerationError ''permission denied'')))
        (configWith (Some ''127.0.0.0/8'') None) [127, 0, 0, 1]
     = Some (UnableToDetermineOwnIP (EnumerationError ''permission denied''))
   \<and> allowIP (hostEnv (Inl (EnumerationError ''permission denied'')))
        (configWith None None) [93, 184, 216, 34]
     = Some (UnableToDetermineOwnIP (EnumerationError ''permission denied''))"
proof -
  let ?e = "hostEnv (Inl (EnumerationError ''permission denied''))"
  have own: "\<And>ip. IsOwnIP ?e ip = Inl (EnumerationError ''permission denied'')"
    by (simp add: hostEnv_simps IP_Equal_same_length)
  show ?thesis
    using allowIP_own_error_denies [OF own, of "configWith (Some ''127.0.0.0/8'') None" "[127, 0, 0, 1]"]
      allowIP_own_error_denies [OF own, of "configWith None None" "[93, 184, 216, 34]"] own
    by simp
qed

text \<open>
  C2, as stated, also covers a reserved address for which \<^verbatim>\<open>IsOwnIP\<close> fails. There the
  closure returns the error of the enumeration although a field of the allow-list is a
  CIDR that contains the address: 127.0.0.1 is reserved, the allow-list is
  \<^verbatim>\<open>127.0.0.0/8\<close>, and the enumeration of the interfaces fails.
\<close>

theorem allowIP_reserved_enumeration_error_counterexample:
  "IsReservedIP (hostEnv (Inl (EnumerationError ''permission denied''))) [127, 0, 0, 1]
   \<and> FieldsFunc (SafeDereference (Some ''127.0.0.0/8'')) splitFields = [''127.0.0.0/8'']
   \<and> ParseCIDR (hostEnv (Inl (EnumerationError ''permission denied''))) ''127.0.0.0/8''
       = Some \<lparr>IP = [127, 0, 0, 0], Mask = [255, 0, 0, 0]\<rparr>
   \<and> Contains (hostEnv (Inl (EnumerationError ''permission denied'')))
       \<lparr>IP = [127, 0, 0, 0], Mask = [255, 0, 0, 0]\<rparr> [127, 0, 0, 1]
   \<and> allowIP (hostEnv (Inl (EnumerationError ''permission denied'')))
       (configWith (Some ''127.0.0.0/8'') None) [127, 0, 0, 1]
       = Some (UnableToDetermineOwnIP (EnumerationError ''permission denied''))"
  by (simp add: hostEnv_simps IP_Equal_same_length loopback_reserved SafeDereference_def fields_loopback
      parse_loopback contains_loopback allowIP_def)

text \<open>
  C2 (amended). For every address for which \<^verbatim>\<open>IsOwnIP\<close> returns no error and that is
  reserved or an own address, \<^verbatim>\<open>allowIP\<close> allows exactly when some field of
  \<^verbatim>\<open>AllowedUntrustedInternalConnections\<close> parses as a CIDR that contains the address;
  otherwise the error names the reserved range when the address is reserved, and the
  self-assigned address when it is not. In particular, with \<^verbatim>\<open>127.0.0.0/8\<close> among the
  fields (parsed and tested as Go's \<^verbatim>\<open>net\<close> package does), 127.0.0.1 is allowed whenever
  \<^verbatim>\<open>IsOwnIP\<close> returns no error.
\<close>

theorem allowIP_reserved_or_own:
  "(IsOwnIP e ip = Inr ownIP \<and> (IsReservedIP e ip \<or> ownIP) \<longrightarrow>
      allowIP e cfg ip =
        (if \<exists>allowed \<in> set (FieldsFunc
                (SafeDereference (AllowedUntrustedInternalConnections (ServiceSettings cfg)))
                splitFields).
              \<exists>ipRange. ParseCIDR e allowed = Some ipRange \<and> Contains e ipRange ip
         then None
         else if IsReservedIP e ip then Some (ReservedNotAllowed ip)
         else Some (SelfAssignedNotAllowed ip)))
   \<and> (ParseCIDR e = net_ParseCIDR \<and> Contains e = IPNet_Contains
        \<and> IsOwnIP e [127, 0, 0, 1] = Inr own1
        \<and> ''127.0.0.0/8'' \<in> set (FieldsFunc
              (SafeDereference (AllowedUntrustedInternalConnections (ServiceSettings cfg)))
              splitFields)
      \<longrightarrow> allowIP e cfg [127, 0, 0, 1] = None)"
proof (intro conjI impI)
  assume "IsOwnIP e ip = Inr ownIP \<and> (IsReservedIP e ip \<or> ownIP)"
  then show "allowIP e cfg ip =
        (if \<exists>allowed \<in> set (FieldsFunc
                (SafeDereference (AllowedUntrustedInternalConnections (ServiceSettings cfg)))
                splitFields).
              \<exists>ipRange. ParseCIDR e allowed = Some ipRange \<and> Contains e ipRange ip
         then None
         else if IsReservedIP e ip then Some (ReservedNotAllowed ip)
         else Some (SelfAssignedNotAllowed ip))"
    by (auto simp: allowIP_cases)
next
  let ?fs = "FieldsFunc
      (SafeDereference (AllowedUntrustedInternalConnections (ServiceSettings cfg))) splitFields"
  assume a: "ParseCIDR e = net_ParseCIDR \<and> Contains e = IPNet_Contains
        \<and> IsOwnIP e [127, 0, 0, 1] = Inr own1 \<and> ''127.0.0.0/8'' \<in> set ?fs"
  then have "\<exists>allowed \<in> set ?fs.
      \<exists>ipRange. ParseCIDR e allowed = Some ipRange \<and> Contains e ipRange [127, 0, 0, 1]"
    using parse_loopback contains_loopback by (intro bexI [of _ "''127.0.0.0/8''"]) auto
  with a show "allowIP e cfg [127, 0, 0, 1] = None"
    by (simp add: allowIP_cases)
qed

theorem allowIP_reserved_or_own_witness:
  "allowIP (hostEnv (Inr [])) (configWith (Some ''127.0.0.0/8'') None) [127, 0, 0, 1] = None
   \<and> allowIP (hostEnv (Inr [])) (configWith (Some ''10.0.0.0/8'') None) [127, 0, 0, 1]
       = Some (ReservedNotAllowed [127, 0, 0, 1])
   \<and> allowIP (hostEnv (Inr [[93, 184, 216, 34]])) (configWith (Some ''10.0.0.0/8'') None)
       [93, 184, 216, 34]
       = Some (SelfAssignedNotAllowed [93, 184, 216, 34])"
proof -
  have f10: "FieldsFunc ''10.0.0.0/8'' splitFields = [''10.0.0.0/8'']"
    by code_simp
  have n10: "\<not> IPNet_Contains \<lparr>IP = [10, 0, 0, 0], Mask = [255, 0, 0, 0]\<rparr> [93, 184, 216, 34]"
    by code_simp
  show ?thesis
    using allowIP_reserved_or_own [of "hostEnv (Inr [])" "[127, 0, 0, 1]" False
        "configWith (Some ''127.0.0.0/8'') None" False]
      allowIP_reserved_or_own [of "hostEnv (Inr [])" "[127, 0, 0, 1]" False
        "configWith (Some ''10.0.0.0/8'') None" False]
      allowIP_reserved_or_own [of "hostEnv (Inr [[93, 184, 216, 34]])" "[93, 184, 216, 34]" True
        "configWith (Some ''10.0.0.0/8'') None" False]
    by (simp add: hostEnv_simps IP_Equal_same_length configWith_simps SafeDereference_def loopback_reserved
        public_not_reserved fields_loopback f10 parse_loopback parse_ten contains_loopback
        not_contains_ten n10)
qed

text \<open>
  C3, as stated, fails: the closures of the transport call
  \<^verbatim>\<open>h.configService.Config()\<close> each time they run. One transport, made when the allow-list
  was \<^verbatim>\<open>internal.example.com\<close> (respectively \<^verbatim>\<open>127.0.0.0/8\<close>), allows the host
  \<^verbatim>\<open>internal.example.com\<close> (respectively the address 127.0.0.1) while the configuration
  is unchanged and denies it after the allow-list has been emptied.
\<close>

theorem MakeTransport_policy_not_captured_counterexample:
  "runAllowHost (MakeTransport (configWith (Some ''internal.example.com'') None) False)
       (configWith (Some ''internal.example.com'') None) ''internal.example.com'' = Some True
   \<and> runAllowHost (MakeTransport (configWith (Some ''internal.example.com'') None) False)
       (configWith (Some []) None) ''internal.example.com'' = Some False
   \<and> runAllowIP (MakeTransport (configWith (Some ''127.0.0.0/8'') None) False)
       (hostEnv (Inr [])) (configWith (Some ''127.0.0.0/8'') None) [127, 0, 0, 1] = Some None
   \<and> runAllowIP (MakeTransport (configWith (Some ''127.0.0.0/8'') None) False)
       (hostEnv (Inr [])) (configWith (Some []) None) [127, 0, 0, 1]
       = Some (Some (ReservedNotAllowed [127, 0, 0, 1]))"
  by (simp add: runAllowHost_MakeTransport runAllowIP_MakeTransport allowHost_def allowIP_def
      configWith_simps hostEnv_simps IP_Equal_same_length SafeDereference_def fields_host fields_loopback
      FieldsFunc_empty parse_loopback contains_loopback loopback_reserved)

text \<open>
  C3 (amended). Only the insecure flag is captured at the \<^verbatim>\<open>MakeTransport\<close> call. The
  allow-list is not captured: for every transport returned by \<^verbatim>\<open>MakeTransport(false)\<close>, an
  evaluation of its host check or of its address check gives the decision of
  \<^verbatim>\<open>AllowedUntrustedInternalConnections\<close> as the live configuration has it at that
  evaluation, whatever the configuration was at the \<^verbatim>\<open>MakeTransport\<close> call. So two
  evaluations of the same host and address give the same decision whenever
  \<^verbatim>\<open>AllowedUntrustedInternalConnections\<close> is the same at both (a change of
  \<^verbatim>\<open>EnableInsecureOutgoingConnections\<close> in between has no effect).
\<close>

theorem MakeTransport_closures_read_live_configuration:
  "arg_insecure (MakeTransport cfg0 False)
     = (EnableInsecureOutgoingConnections (ServiceSettings cfg0) = Some True)
   \<and> runAllowHost (MakeTransport cfg0 False) live host = Some (allowHost live host)
   \<and> runAllowIP (MakeTransport cfg0 False) e live ip = Some (allowIP e live ip)
   \<and> (AllowedUntrustedInternalConnections (ServiceSettings live1)
        = AllowedUntrustedInternalConnections (ServiceSettings live2) \<longrightarrow>
        runAllowHost (MakeTransport cfg0 False) live1 host
          = runAllowHost (MakeTransport cfg0 False) live2 host
        \<and> runAllowIP (MakeTransport cfg0 False) e live1 ip
          = runAllowIP (MakeTransport cfg0 False) e live2 ip)"
proof (intro conjI impI)
  show "arg_insecure (MakeTransport cfg0 False)
     = (EnableInsecureOutgoingConnections (ServiceSettings cfg0) = Some True)"
    by (simp add: MakeTransport_def split: option.splits)
next
  show "runAllowHost (MakeTransport cfg0 False) live host = Some (allowHost live host)"
    by (rule runAllowHost_MakeTransport)
next
  show "runAllowIP (MakeTransport cfg0 False) e live ip = Some (allowIP e live ip)"
    by (rule runAllowIP_MakeTransport)
next
  assume same: "AllowedUntrustedInternalConnections (ServiceSettings live1)
        = AllowedUntrustedInternalConnections (ServiceSettings live2)"
  then show "runAllowHost (MakeTransport cfg0 False) live1 host
          = runAllowHost (MakeTransport cfg0 False) live2 host"
    by (simp add: runAllowHost_MakeTransport allowHost_def)
  from same show "runAllowIP (MakeTransport cfg0 False) e live1 ip
          = runAllowIP (MakeTransport cfg0 False) e live2 ip"
    by (simp only: runAllowIP_MakeTransport allowIP_def)
qed

theorem MakeTransport_closures_read_live_configuration_witness:
  "arg_insecure (MakeTransport (configWith (Some ''127.0.0.0/8'') (Some True)) False)
   \<and> runAllowIP (MakeTransport (configWith (Some ''127.0.0.0/8'') (Some True)) False)
       (hostEnv (Inr [])) (configWith (Some []) (Some True)) [127, 0, 0, 1]
       = Some (Some (ReservedNotAllowed [127, 0, 0, 1]))
   \<and> runAllowIP (MakeTransport (configWith (Some ''127.0.0.0/8'') (Some True)) False)
       (hostEnv (Inr [])) (configWith (Some []) (Some False)) [127, 0, 0, 1]
       = Some (Some (ReservedNotAllowed [127, 0, 0, 1]))
   \<and> runAllowHost (MakeTransport (configWith (Some ''127.0.0.0/8'') (Some True)) False)
       (configWith (Some ''internal.example.com'') (Some False)) ''internal.example.com''
       = Some True"
  using MakeTransport_closures_read_live_configuration
      [of "configWith (Some ''127.0.0.0/8'') (Some True)"
          "configWith (Some []) (Some True)" "[]" "hostEnv (Inr [])" "[127, 0, 0, 1]"
          "configWith (Some []) (Some True)" "configWith (Some []) (Some False)"]
    MakeTransport_closures_read_live_configuration
      [of "configWith (Some ''127.0.0.0/8'') (Some True)"
          "configWith (Some ''internal.example.com'') (Some False)" "''internal.example.com''"
          "hostEnv (Inr [])" "[127, 0, 0, 1]"
          "configWith (Some []) (Some True)" "configWith (Some []) (Some False)"]
  by (simp add: allowHost_def allowIP_def configWith_simps hostEnv_simps IP_Equal_same_length SafeDereference_def
      fields_host FieldsFunc_empty loopback_reserved)

text \<open>
  C4, as stated, fails: the source has no separate set of hostnames. \<^verbatim>\<open>allowHost\<close>
  compares the host with every field, also with a field that parses as a CIDR: with the
  allow-list of the example, the host \<^verbatim>\<open>10.0.0.0/8\<close> is accepted.
\<close>

theorem allowHost_matches_CIDR_field_counterexample:
  "net_ParseCIDR ''10.0.0.0/8'' = Some \<lparr>IP = [10, 0, 0, 0], Mask = [255, 0, 0, 0]\<rparr>
   \<and> allowHost (configWith (Some ''10.0.0.0/8, internal.example.com  other.local'') None)
       ''10.0.0.0/8''"
  by (simp add: parse_ten allowHost_def configWith_simps fields_example)

text \<open>
  C4 (amended). The allow-list string is split into fields at every whitespace character
  or comma (\<open>FieldsFunc\<close> with \<open>splitFields\<close> computes the splitting rule of the spec, and
  the empty string has no field). Every field is a literal hostname for \<^verbatim>\<open>allowHost\<close>,
  whether it parses as a CIDR or not; the fields that parse as a CIDR are, in addition,
  the ranges that the loop of \<^verbatim>\<open>allowIP\<close> tests. Thus
  \<^verbatim>\<open>"10.0.0.0/8, internal.example.com  other.local"\<close> has exactly the fields
  \<^verbatim>\<open>10.0.0.0/8\<close>, \<^verbatim>\<open>internal.example.com\<close> and \<^verbatim>\<open>other.local\<close>; of these exactly
  \<^verbatim>\<open>10.0.0.0/8\<close> parses as a CIDR; and \<^verbatim>\<open>allowHost\<close> accepts all three as hosts.
\<close>

theorem FieldsFunc_fields_are_hosts_and_CIDRs:
  "FieldsFunc s splitFields = spec_fields s
   \<and> FieldsFunc [] splitFields = []
   \<and> (allowHost cfg host \<longleftrightarrow>
        (\<exists>spec. AllowedUntrustedInternalConnections (ServiceSettings cfg) = Some spec
           \<and> host \<in> set (FieldsFunc spec splitFields)))
   \<and> (allowedLoop e ip (FieldsFunc s splitFields) \<longleftrightarrow>
        (\<exists>field \<in> set (FieldsFunc s splitFields).
           \<exists>ipRange. ParseCIDR e field = Some ipRange \<and> Contains e ipRange ip))
   \<and> FieldsFunc ''10.0.0.0/8, internal.example.com  other.local'' splitFields
       = [''10.0.0.0/8'', ''internal.example.com'', ''other.local'']
   \<and> net_ParseCIDR ''10.0.0.0/8'' = Some \<lparr>IP = [10, 0, 0, 0], Mask = [255, 0, 0, 0]\<rparr>
   \<and> net_ParseCIDR ''internal.example.com'' = None
   \<and> net_ParseCIDR ''other.local'' = None
   \<and> allowHost (configWith (Some ''10.0.0.0/8, internal.example.com  other.local'') ins)
       ''10.0.0.0/8''
   \<and> allowHost (configWith (Some ''10.0.0.0/8, internal.example.com  other.local'') ins)
       ''internal.example.com''
   \<and> allowHost (configWith (Some ''10.0.0.0/8, internal.example.com  other.local'') ins)
       ''other.local''"
  by (simp add: FieldsFunc_spec_fields [symmetric] FieldsFunc_empty allowHost_iff
      allowedLoop_iff fields_example parse_ten parse_hosts configWith_simps)

theorem FieldsFunc_fields_are_hosts_and_CIDRs_witness:
  "spec_fields ''a,b c'' = [''a'', ''b'', ''c'']
   \<and> spec_fields [CHR 0x61, CHR 0xC2, CHR 0xA0, CHR 0x62, CHR 0xE3, CHR 0x80, CHR 0x80, CHR 0x63]
       = [''a'', ''b'', ''c'']
   \<and> \<not> allowHost (configWith (Some ''10.0.0.0/8, internal.example.com  other.local'') None)
         ''10.0.0.0''
   \<and> allowedLoop (hostEnv (Inr [])) [10, 1, 2, 3]
         (FieldsFunc ''10.0.0.0/8, internal.example.com  other.local'' splitFields)"
proof -
  note t = FieldsFunc_fields_are_hosts_and_CIDRs [of "''a,b c''"
      "configWith (Some ''10.0.0.0/8, internal.example.com  other.local'') None"
      "''10.0.0.0''" "hostEnv (Inr [])" "[10, 1, 2, 3]" None]
  have f: "FieldsFunc ''a,b c'' splitFields = [''a'', ''b'', ''c'']"
    by code_simp
  have c: "IPNet_Contains \<lparr>IP = [10, 0, 0, 0], Mask = [255, 0, 0, 0]\<rparr> [10, 1, 2, 3]"
    by code_simp
  have 1: "spec_fields ''a,b c'' = [''a'', ''b'', ''c'']"
    using t [THEN conjunct1] f by simp
  have u: "FieldsFunc
      [CHR 0x61, CHR 0xC2, CHR 0xA0, CHR 0x62, CHR 0xE3, CHR 0x80, CHR 0x80, CHR 0x63] splitFields
      = [''a'', ''b'', ''c'']"
    by code_simp
  have 4: "spec_fields
      [CHR 0x61, CHR 0xC2, CHR 0xA0, CHR 0x62, CHR 0xE3, CHR 0x80, CHR 0x80, CHR 0x63]
      = [''a'', ''b'', ''c'']"
    using FieldsFunc_fields_are_hosts_and_CIDRs [where s =
        "[CHR 0x61, CHR 0xC2, CHR 0xA0, CHR 0x62, CHR 0xE3, CHR 0x80, CHR 0x80, CHR 0x63]",
        THEN conjunct1] u
    by simp
  have 2: "\<not> allowHost (configWith (Some ''10.0.0.0/8, internal.example.com  other.local'') None)
         ''10.0.0.0''"
    using t [THEN conjunct2, THEN conjunct2, THEN conjunct1]
    by (simp add: configWith_simps fields_example)
  have 3: "allowedLoop (hostEnv (Inr [])) [10, 1, 2, 3]
         (FieldsFunc ''10.0.0.0/8, internal.example.com  other.local'' splitFields)"
    by (simp add: fields_example parse_ten c hostEnv_simps IP_Equal_same_length)
  show ?thesis
    using 1 2 3 4 by simp
qed

text \<open>
  C5. An address that is neither reserved nor an own address (\<^verbatim>\<open>IsOwnIP\<close> returning no
  error) is allowed by \<^verbatim>\<open>allowIP\<close>, whatever the allow-list is; in particular the address
  check of a transport made by \<^verbatim>\<open>MakeTransport(false)\<close> allows it under an empty
  allow-list.
\<close>

theorem allowIP_public_allowed:
  "\<not> IsReservedIP e ip \<Longrightarrow> IsOwnIP e ip = Inr False \<Longrightarrow>
     allowIP e cfg ip = None \<and> runAllowIP (MakeTransport cfg0 False) e cfg ip = Some None"
  by (simp add: runAllowIP_MakeTransport allowIP_def)

theorem allowIP_public_allowed_witness:
  "\<not> IsReservedIP (hostEnv (Inr [[192, 168, 1, 10]])) [93, 184, 216, 34]
   \<and> IsOwnIP (hostEnv (Inr [[192, 168, 1, 10]])) [93, 184, 216, 34] = Inr False
   \<and> allowIP (hostEnv (Inr [[192, 168, 1, 10]])) (configWith (Some []) None) [93, 184, 216, 34]
       = None
   \<and> runAllowIP (MakeTransport (configWith None None) False) (hostEnv (Inr [[192, 168, 1, 10]]))
       (configWith (Some []) None) [93, 184, 216, 34] = Some None"
proof -
  let ?e = "hostEnv (Inr [[192, 168, 1, 10]])"
  have r: "\<not> IsReservedIP ?e [93, 184, 216, 34]"
    by (simp add: hostEnv_simps IP_Equal_same_length public_not_reserved)
  have own: "IsOwnIP ?e [93, 184, 216, 34] = Inr False"
    by (simp add: hostEnv_simps IP_Equal_same_length)
  show ?thesis
    using r own
      allowIP_public_allowed [OF r own, of "configWith (Some []) None" "configWith None None"]
    by simp
qed

text \<open>
  C6. For every configuration, \<^verbatim>\<open>MakeTransport(true)\<close> returns
  \<^verbatim>\<open>NewTransport(insecure, nil, nil)\<close>: the transport has no host check and no address
  check, and the insecure flag is still read from the configuration and passed on. With
  both checks absent, the dial-time decision of the spec allows every destination.
\<close>

theorem MakeTransport_trusted_no_checks:
  "MakeTransport cfg True
     = NewTransport (EnableInsecureOutgoingConnections (ServiceSettings cfg) = Some True)
         None None
   \<and> arg_allowHost (MakeTransport cfg True) = None
   \<and> arg_allowIP (MakeTransport cfg True) = None
   \<and> evaluate (MakeTransport cfg True) e live host ip = None"
  by (simp add: MakeTransport_def evaluate_def runAllowHost_def runAllowIP_def
      split: option.splits)

theorem MakeTransport_trusted_no_checks_witness:
  "MakeTransport (configWith (Some []) (Some True)) True = NewTransport True None None
   \<and> MakeTransport (configWith (Some []) None) True = NewTransport False None None
   \<and> evaluate (MakeTransport (configWith (Some []) None) True)
       (hostEnv (Inl (EnumerationError ''permission denied''))) (configWith (Some []) None)
       ''localhost'' [127, 0, 0, 1] = None"
proof -
  have 1: "MakeTransport (configWith (Some []) (Some True)) True = NewTransport True None None"
    using MakeTransport_trusted_no_checks [where cfg = "configWith (Some []) (Some True)",
        THEN conjunct1]
    by (simp add: configWith_simps)
  note t = MakeTransport_trusted_no_checks [where cfg = "configWith (Some []) None"
      and e = "hostEnv (Inl (EnumerationError ''permission denied''))"
      and live = "configWith (Some []) None" and host = "''localhost''"
      and ip = "[127, 0, 0, 1]"]
  have 2: "MakeTransport (configWith (Some []) None) True = NewTransport False None None"
    using t [THEN conjunct1] by (simp add: configWith_simps)
  have 3: "evaluate (MakeTransport (configWith (Some []) None) True)
       (hostEnv (Inl (EnumerationError ''permission denied''))) (configWith (Some []) None)
       ''localhost'' [127, 0, 0, 1] = None"
    using t by (elim conjE)
  show ?thesis
    using 1 2 3 by (intro conjI)
qed

text \<open>
  C7, as stated, fails in one direction: the hostname fields of the spec are the fields
  that fail CIDR parsing, and \<^verbatim>\<open>allowHost\<close> also returns true for a host equal to a field
  that parses as a CIDR. With the allow-list \<^verbatim>\<open>192.168.0.0/16 internal.example.com\<close> the
  only hostname field is \<^verbatim>\<open>internal.example.com\<close>, and the host \<^verbatim>\<open>192.168.0.0/16\<close> is
  accepted.
\<close>

theorem allowHost_accepts_CIDR_field_counterexample:
  "allowHost (configWith (Some ''192.168.0.0/16 internal.example.com'') None) ''192.168.0.0/16''
   \<and> net_ParseCIDR ''192.168.0.0/16''
       = Some \<lparr>IP = [192, 168, 0, 0], Mask = [255, 255, 0, 0]\<rparr>
   \<and> spec_hosts net_ParseCIDR ''192.168.0.0/16 internal.example.com''
       = [''internal.example.com'']"
  by (simp add: allowHost_def configWith_simps fields_two parse_private parse_hosts
      spec_hosts_def FieldsFunc_spec_fields [symmetric])

text \<open>
  C7 (amended). \<^verbatim>\<open>allowHost\<close> returns true exactly when the host is equal, as a string
  (case-sensitively, no wildcarding), to one of the fields of
  \<^verbatim>\<open>AllowedUntrustedInternalConnections\<close>: any field, whether it parses as a CIDR or not,
  so in particular every hostname field of the spec is accepted. A host match allows the
  connection in the dial-time decision of the spec whatever the address is and whatever
  \<^verbatim>\<open>IsReservedIP\<close> and \<^verbatim>\<open>IsOwnIP\<close> answer: the host is checked first.
\<close>

theorem allowHost_exact_match_wins:
  "(allowHost cfg host \<longleftrightarrow>
      (\<exists>spec. AllowedUntrustedInternalConnections (ServiceSettings cfg) = Some spec
         \<and> host \<in> set (FieldsFunc spec splitFields)))
   \<and> (AllowedUntrustedInternalConnections (ServiceSettings cfg) = Some spec
        \<and> host \<in> set (spec_hosts parse spec) \<longrightarrow> allowHost cfg host)
   \<and> (allowHost live host \<longrightarrow> evaluate (MakeTransport cfg0 False) e live host ip = None)"
proof (intro conjI impI)
  show "allowHost cfg host \<longleftrightarrow>
      (\<exists>spec. AllowedUntrustedInternalConnections (ServiceSettings cfg) = Some spec
         \<and> host \<in> set (FieldsFunc spec splitFields))"
    by (rule allowHost_iff)
next
  assume "AllowedUntrustedInternalConnections (ServiceSettings cfg) = Some spec
        \<and> host \<in> set (spec_hosts parse spec)"
  then show "allowHost cfg host"
    using spec_hosts_subset [of parse spec] by (auto simp: allowHost_iff)
next
  assume "allowHost live host"
  then show "evaluate (MakeTransport cfg0 False) e live host ip = None"
    by (simp add: evaluate_def runAllowHost_MakeTransport)
qed

theorem allowHost_exact_match_wins_witness:
  "allowHost (configWith (Some ''10.0.0.0/8, internal.example.com  other.local'') None)
       ''internal.example.com''
   \<and> allowHost (configWith (Some ''10.0.0.0/8, internal.example.com  other.local'') None)
       ''other.local''
   \<and> allowHost (configWith (Some ''10.0.0.0/8, internal.example.com  other.local'') None)
       ''10.0.0.0/8''
   \<and> \<not> allowHost (configWith (Some ''10.0.0.0/8, internal.example.com  other.local'') None)
       ''Internal.Example.Com''
   \<and> \<not> allowHost (configWith (Some ''10.0.0.0/8, internal.example.com  other.local'') None)
       ''example.com''
   \<and> \<not> allowHost (configWith (Some ''10.0.0.0/8, internal.example.com  other.local'') None)
       ''10.0.0.0''
   \<and> spec_hosts net_ParseCIDR ''10.0.0.0/8, internal.example.com  other.local''
       = [''internal.example.com'', ''other.local'']
   \<and> evaluate (MakeTransport (configWith None None) False)
       (hostEnv (Inl (EnumerationError ''permission denied'')))
       (configWith (Some ''10.0.0.0/8, internal.example.com  other.local'') None)
       ''internal.example.com'' [10, 0, 0, 5] = None"
proof -
  let ?cfg = "configWith (Some ''10.0.0.0/8, internal.example.com  other.local'') None"
  let ?s = "''10.0.0.0/8, internal.example.com  other.local''"
  have hosts: "spec_hosts net_ParseCIDR ?s = [''internal.example.com'', ''other.local'']"
    by (simp add: spec_hosts_def FieldsFunc_spec_fields [symmetric] fields_example parse_ten
        parse_hosts)
  have 1: "allowHost ?cfg ''internal.example.com''"
    using allowHost_exact_match_wins [where cfg = ?cfg and host = "''internal.example.com''"
        and spec = ?s and parse = net_ParseCIDR, THEN conjunct2, THEN conjunct1]
    by (simp add: configWith_simps hosts)
  have 2: "allowHost ?cfg ''other.local''"
    using allowHost_exact_match_wins [where cfg = ?cfg and host = "''other.local''"
        and spec = ?s and parse = net_ParseCIDR, THEN conjunct2, THEN conjunct1]
    by (simp add: configWith_simps hosts)
  have 3: "allowHost ?cfg ''10.0.0.0/8''"
    using allowHost_exact_match_wins [where cfg = ?cfg and host = "''10.0.0.0/8''",
        THEN conjunct1]
    by (simp add: configWith_simps fields_example)
  have 4: "\<not> allowHost ?cfg ''Internal.Example.Com''"
    using allowHost_exact_match_wins [where cfg = ?cfg and host = "''Internal.Example.Com''",
        THEN conjunct1]
    by (simp add: configWith_simps fields_example)
  have 5: "\<not> allowHost ?cfg ''example.com''"
    using allowHost_exact_match_wins [where cfg = ?cfg and host = "''example.com''",
        THEN conjunct1]
    by (simp add: configWith_simps fields_example)
  have 6: "\<not> allowHost ?cfg ''10.0.0.0''"
    using allowHost_exact_match_wins [where cfg = ?cfg and host = "''10.0.0.0''",
        THEN conjunct1]
    by (simp add: configWith_simps fields_example)
  have 7: "evaluate (MakeTransport (configWith None None) False)
       (hostEnv (Inl (EnumerationError ''permission denied''))) ?cfg
       ''internal.example.com'' [10, 0, 0, 5] = None"
    using allowHost_exact_match_wins [where live = ?cfg and host = "''internal.example.com''"
        and ?cfg0.0 = "configWith None None"
        and e = "hostEnv (Inl (EnumerationError ''permission denied''))"
        and ip = "[10, 0, 0, 5]", THEN conjunct2, THEN conjunct2] 1
    by simp
  show ?thesis
    using 1 2 3 4 5 6 7 hosts by (intro conjI)
qed

text \<open>
  C8. For every reserved or own address and every allow-list: when \<^verbatim>\<open>allowIP\<close> allows,
  some field parsed as a CIDR and that CIDR contains the address; when every field fails
  to parse, the address is denied; and the loop gives the same result with the fields
  that fail to parse removed.
\<close>

theorem allowIP_malformed_entry_fails_closed:
  "IsReservedIP e ip \<or> IsOwnIP e ip = Inr True \<Longrightarrow>
     (allowIP e cfg ip = None \<longrightarrow>
        (\<exists>allowed \<in> set (FieldsFunc
              (SafeDereference (AllowedUntrustedInternalConnections (ServiceSettings cfg)))
              splitFields).
           \<exists>ipRange. ParseCIDR e allowed = Some ipRange \<and> Contains e ipRange ip))
     \<and> ((\<forall>allowed \<in> set (FieldsFunc
              (SafeDereference (AllowedUntrustedInternalConnections (ServiceSettings cfg)))
              splitFields). ParseCIDR e allowed = None)
        \<longrightarrow> allowIP e cfg ip \<noteq> None)
     \<and> allowedLoop e ip fs
        = allowedLoop e ip (filter (\<lambda>allowed. ParseCIDR e allowed \<noteq> None) fs)"
proof (intro conjI)
  assume a: "IsReservedIP e ip \<or> IsOwnIP e ip = Inr True"
  let ?fs = "FieldsFunc
      (SafeDereference (AllowedUntrustedInternalConnections (ServiceSettings cfg))) splitFields"
  show 1: "allowIP e cfg ip = None \<longrightarrow>
        (\<exists>allowed \<in> set ?fs. \<exists>ipRange. ParseCIDR e allowed = Some ipRange \<and> Contains e ipRange ip)"
    using a by (auto simp: allowIP_cases split: sum.splits if_splits)
  show "(\<forall>allowed \<in> set ?fs. ParseCIDR e allowed = None) \<longrightarrow> allowIP e cfg ip \<noteq> None"
    using 1 by auto
  show "allowedLoop e ip fs
        = allowedLoop e ip (filter (\<lambda>allowed. ParseCIDR e allowed \<noteq> None) fs)"
    by (rule allowedLoop_filter)
qed

theorem allowIP_malformed_entry_fails_closed_witness:
  "IsReservedIP (hostEnv (Inr [])) [127, 0, 0, 1]
   \<and> net_ParseCIDR ''127.0.0.1'' = None
   \<and> net_ParseCIDR ''127.0.0.0/8x'' = None
   \<and> allowIP (hostEnv (Inr [])) (configWith (Some ''127.0.0.1 127.0.0.0/8x'') None)
       [127, 0, 0, 1] = Some (ReservedNotAllowed [127, 0, 0, 1])"
proof -
  have r: "IsReservedIP (hostEnv (Inr [])) [127, 0, 0, 1]"
    by (simp add: hostEnv_simps IP_Equal_same_length loopback_reserved)
  have f: "FieldsFunc ''127.0.0.1 127.0.0.0/8x'' splitFields = [''127.0.0.1'', ''127.0.0.0/8x'']"
    by code_simp
  have p: "net_ParseCIDR ''127.0.0.1'' = None" "net_ParseCIDR ''127.0.0.0/8x'' = None"
    by code_simp+
  have "allowIP (hostEnv (Inr [])) (configWith (Some ''127.0.0.1 127.0.0.0/8x'') None)
       [127, 0, 0, 1] \<noteq> None"
    using allowIP_malformed_entry_fails_closed [OF disjI1 [OF r],
        of "configWith (Some ''127.0.0.1 127.0.0.0/8x'') None" "[]"]
    by (simp add: configWith_simps SafeDereference_def f p hostEnv_simps IP_Equal_same_length)
  then have "allowIP (hostEnv (Inr [])) (configWith (Some ''127.0.0.1 127.0.0.0/8x'') None)
       [127, 0, 0, 1] = Some (ReservedNotAllowed [127, 0, 0, 1])"
    using r by (simp add: allowIP_def hostEnv_simps IP_Equal_same_length split: if_splits)
  with r p show ?thesis
    by simp
qed

text \<open>
  C9. The decisions of \<^verbatim>\<open>allowHost\<close> and \<^verbatim>\<open>allowIP\<close> are determined by the host, the
  address, the allow-list string and the answers of \<^verbatim>\<open>IsReservedIP\<close> and \<^verbatim>\<open>IsOwnIP\<close> for
  that address: two evaluations at which these are the same give the same decision,
  whatever else differs between them (the other setting of the configuration, the
  answers for other addresses).
\<close>

theorem decision_depends_only_on_triple:
  assumes "AllowedUntrustedInternalConnections (ServiceSettings c1)
             = AllowedUntrustedInternalConnections (ServiceSettings c2)"
    and "IsReservedIP e1 ip = IsReservedIP e2 ip"
    and "IsOwnIP e1 ip = IsOwnIP e2 ip"
    and "ParseCIDR e1 = ParseCIDR e2"
    and "Contains e1 = Contains e2"
  shows "allowHost c1 host = allowHost c2 host \<and> allowIP e1 c1 ip = allowIP e2 c2 ip"
proof
  show "allowHost c1 host = allowHost c2 host"
    using assms(1) by (simp add: allowHost_def)
  have "allowedLoop e1 ip fs = allowedLoop e2 ip fs" for fs
    using assms(4,5) by (rule allowedLoop_cong)
  then show "allowIP e1 c1 ip = allowIP e2 c2 ip"
    by (simp only: allowIP_def assms(1,2,3))
qed

theorem decision_depends_only_on_triple_witness:
  "allowHost (configWith (Some ''127.0.0.0/8'') (Some True)) ''internal.example.com''
     = allowHost (configWith (Some ''127.0.0.0/8'') None) ''internal.example.com''
   \<and> allowIP (hostEnv (Inr [])) (configWith (Some ''127.0.0.0/8'') (Some True)) [127, 0, 0, 1]
     = allowIP (hostEnv (Inr [[192, 168, 1, 10]])) (configWith (Some ''127.0.0.0/8'') None)
         [127, 0, 0, 1]"
  using decision_depends_only_on_triple [of "configWith (Some ''127.0.0.0/8'') (Some True)"
      "configWith (Some ''127.0.0.0/8'') None" "hostEnv (Inr [])" "[127, 0, 0, 1]"
      "hostEnv (Inr [[192, 168, 1, 10]])" "''internal.example.com''"]
  by (simp add: configWith_simps hostEnv_simps IP_Equal_same_length)

text \<open>
  C10. With \<^verbatim>\<open>AllowedUntrustedInternalConnections\<close> nil, \<^verbatim>\<open>allowHost\<close> returns false
  for every host and \<^verbatim>\<open>allowIP\<close> denies every reserved or own address (with the reason of
  the reserved range, or of the self-assigned address, when \<^verbatim>\<open>IsOwnIP\<close> returns no
  error). With \<^verbatim>\<open>EnableInsecureOutgoingConnections\<close> nil, the transport is constructed
  with \<^verbatim>\<open>insecure = false\<close>.
\<close>

theorem nil_settings_default_secure:
  "(AllowedUntrustedInternalConnections (ServiceSettings cfg) = None \<longrightarrow>
      \<not> allowHost cfg host
      \<and> (IsReservedIP e ip \<or> IsOwnIP e ip = Inr True \<longrightarrow> allowIP e cfg ip \<noteq> None)
      \<and> (IsOwnIP e ip = Inr ownIP \<and> (IsReservedIP e ip \<or> ownIP) \<longrightarrow>
           allowIP e cfg ip
             = Some (if IsReservedIP e ip then ReservedNotAllowed ip
                     else SelfAssignedNotAllowed ip)))
   \<and> (EnableInsecureOutgoingConnections (ServiceSettings cfg) = None \<longrightarrow>
        arg_insecure (MakeTransport cfg trustURLs) = False)"
proof (intro conjI impI)
  assume n: "AllowedUntrustedInternalConnections (ServiceSettings cfg) = None"
  then show "\<not> allowHost cfg host"
    by (simp add: allowHost_def)
  have fs: "FieldsFunc
      (SafeDereference (AllowedUntrustedInternalConnections (ServiceSettings cfg))) splitFields = []"
    using n by (simp add: SafeDereference_def FieldsFunc_empty)
  {
    assume "IsReservedIP e ip \<or> IsOwnIP e ip = Inr True"
    then show "allowIP e cfg ip \<noteq> None"
      by (auto simp: allowIP_cases fs split: sum.splits)
  }
  {
    assume "IsOwnIP e ip = Inr ownIP \<and> (IsReservedIP e ip \<or> ownIP)"
    then show "allowIP e cfg ip
             = Some (if IsReservedIP e ip then ReservedNotAllowed ip
                     else SelfAssignedNotAllowed ip)"
      by (auto simp: allowIP_cases fs)
  }
next
  assume "EnableInsecureOutgoingConnections (ServiceSettings cfg) = None"
  then show "arg_insecure (MakeTransport cfg trustURLs) = False"
    by (simp add: MakeTransport_def)
qed

theorem nil_settings_default_secure_witness:
  "\<not> allowHost (configWith None None) ''localhost''
   \<and> allowIP (hostEnv (Inr [])) (configWith None None) [127, 0, 0, 1]
       = Some (ReservedNotAllowed [127, 0, 0, 1])
   \<and> allowIP (hostEnv (Inr [[93, 184, 216, 34]])) (configWith None None) [93, 184, 216, 34]
       = Some (SelfAssignedNotAllowed [93, 184, 216, 34])
   \<and> \<not> arg_insecure (MakeTransport (configWith None None) False)
   \<and> \<not> arg_insecure (MakeTransport (configWith None None) True)"
  using nil_settings_default_secure [of "configWith None None" "''localhost''"
      "hostEnv (Inr [])" "[127, 0, 0, 1]" False False]
    nil_settings_default_secure [of "configWith None None" "''localhost''"
      "hostEnv (Inr [[93, 184, 216, 34]])" "[93, 184, 216, 34]" True True]
  by (simp add: configWith_simps hostEnv_simps IP_Equal_same_length loopback_reserved public_not_reserved)

end
